theory Spec2Isabelle
  imports Main "HOL-Library.Sublist"
begin

section \<open>Data model\<close>

text \<open>
  A cell (a ``variable'' of the solver) is the Python tuple \<open>(row, col)\<close>. A Python value
  stored in an array or in a candidate set is an integer or \<open>None\<close>. A NumPy array of
  two dimensions is a list of rows. NumPy arrays are mutable objects shared with the
  caller, so they live in an explicit store: an address is an index into the list of
  allocated arrays. The store also keeps the list of all element writes, newest first;
  nothing reads it, it only records what the program did.
\<close>

type_synonym cell = "nat \<times> nat"
type_synonym pyval = "int option"
type_synonym ndarray = "pyval list list"
type_synonym addr = nat

text \<open>
  The exceptions the source can raise. \<open>OutOfFuel\<close> is not a Python exception: it is the
  result of the model of \<open>depth_first_search\<close> when its recursion budget is used up.
\<close>

datatype error = IndexError | KeyError | ValueError | OutOfFuel

record memory =
  arrays :: "ndarray list"
  writes :: "(addr \<times> cell \<times> pyval) list"

type_synonym candidates = "cell \<rightharpoonup> pyval set"
type_synonym peers = "cell \<rightharpoonup> cell list"

text \<open>\<open>len(a)\<close> and \<open>len(a[r])\<close> for an array \<open>a\<close>.\<close>

definition array_len :: "memory \<Rightarrow> addr \<Rightarrow> nat" where
  "array_len m a = length (arrays m ! a)"

definition row_len :: "memory \<Rightarrow> addr \<Rightarrow> nat \<Rightarrow> error + nat" where
  "row_len m a r =
     (if r < length (arrays m ! a) then Inr (length (arrays m ! a ! r)) else Inl IndexError)"

text \<open>\<open>a[row][col]\<close>, read and written; an index out of range raises \<open>IndexError\<close>.\<close>

definition get_item :: "memory \<Rightarrow> addr \<Rightarrow> cell \<Rightarrow> error + pyval" where
  "get_item m a var =
     (let arr = arrays m ! a in
      if fst var < length arr \<and> snd var < length (arr ! fst var)
      then Inr (arr ! fst var ! snd var) else Inl IndexError)"

definition set_item :: "memory \<Rightarrow> addr \<Rightarrow> cell \<Rightarrow> pyval \<Rightarrow> error + memory" where
  "set_item m a var x =
     (let arr = arrays m ! a in
      if fst var < length arr \<and> snd var < length (arr ! fst var)
      then Inr (m\<lparr>arrays := (arrays m)[a := arr[fst var := (arr ! fst var)[snd var := x]]],
                  writes := (a, var, x) # writes m\<rparr>)
      else Inl IndexError)"

text \<open>\<open>np.full((rows, cols), x)\<close> builds a new array; \<open>alloc\<close> gives it a fresh address.\<close>

definition np_full :: "nat \<Rightarrow> nat \<Rightarrow> pyval \<Rightarrow> ndarray" where
  "np_full rows cols x = replicate rows (replicate cols x)"

definition alloc :: "memory \<Rightarrow> ndarray \<Rightarrow> memory \<times> addr" where
  "alloc m arr = (m\<lparr>arrays := arrays m @ [arr]\<rparr>, length (arrays m))"

text \<open>\<open>None in a\<close>: some element of the array is \<open>None\<close>.\<close>

definition None_in :: "memory \<Rightarrow> addr \<Rightarrow> bool" where
  "None_in m a = (\<exists>row \<in> set (arrays m ! a). None \<in> set row)"

text \<open>
  \<open>np.argmin\<close> of a one-dimensional array: the index of the first occurrence of the
  minimum; \<open>ValueError\<close> on an empty array.
\<close>

fun first_index :: "'a \<Rightarrow> 'a list \<Rightarrow> nat" where
  "first_index x [] = 0"
| "first_index x (y # ys) = (if x = y then 0 else Suc (first_index x ys))"

definition np_argmin :: "nat list \<Rightarrow> error + nat" where
  "np_argmin xs = (if xs = [] then Inl ValueError else Inr (first_index (Min (set xs)) xs))"

section \<open>Domain setup\<close>

text \<open>\<open>populate_order_values\<close> (lines 38-51): one candidate set per variable.\<close>

fun populate_order_values ::
  "memory \<Rightarrow> addr \<Rightarrow> cell list \<Rightarrow> candidates \<Rightarrow> error + candidates" where
  "populate_order_values m sudoku [] order_values = Inr order_values"
| "populate_order_values m sudoku (var # variables) order_values =
     (case get_item m sudoku var of
        Inl e \<Rightarrow> Inl e
      | Inr x \<Rightarrow>
          populate_order_values m sudoku variables
            (if x = Some 0 then order_values(var \<mapsto> Some ` {1..9})
             else order_values(var \<mapsto> {x})))"

text \<open>
  The body of the loop of \<open>populate_members\<close> (lines 66-84) for one variable, where
  \<open>n\<close> is \<open>len(sudoku[0])\<close>: the row, then the column, then the 3x3 box, each without
  the variable itself, appended to one list.
\<close>

definition member_list :: "nat \<Rightarrow> cell \<Rightarrow> cell list" where
  "member_list n var =
     (let row = fst var; col = snd var;
          start_row = 3 * (row div 3); start_col = 3 * (col div 3)
      in [(row, j). j \<leftarrow> [0..<n], j \<noteq> col] @
         [(i, col). i \<leftarrow> [0..<n], i \<noteq> row] @
         [(i, j). i \<leftarrow> [start_row..<start_row + 3], j \<leftarrow> [start_col..<start_col + 3],
                  var \<noteq> (i, j)])"

fun populate_members :: "memory \<Rightarrow> addr \<Rightarrow> cell list \<Rightarrow> peers \<Rightarrow> error + peers" where
  "populate_members m sudoku [] members = Inr members"
| "populate_members m sudoku (var # variables) members =
     (case row_len m sudoku 0 of
        Inl e \<Rightarrow> Inl e
      | Inr n \<Rightarrow> populate_members m sudoku variables (members(var \<mapsto> member_list n var)))"

section \<open>Variable selection\<close>

text \<open>\<open>get_empty_var\<close> (lines 132-150): the first loop, the list of sizes, the choice.\<close>

fun empty_variables :: "memory \<Rightarrow> addr \<Rightarrow> cell list \<Rightarrow> error + cell list" where
  "empty_variables m sol_array [] = Inr []"
| "empty_variables m sol_array (var # variables) =
     (case get_item m sol_array var of
        Inl e \<Rightarrow> Inl e
      | Inr x \<Rightarrow>
          (case empty_variables m sol_array variables of
             Inl e \<Rightarrow> Inl e
           | Inr vs \<Rightarrow> Inr (if x = None then var # vs else vs)))"

fun value_sizes :: "candidates \<Rightarrow> cell list \<Rightarrow> error + nat list" where
  "value_sizes order_values [] = Inr []"
| "value_sizes order_values (var # vs) =
     (case order_values var of
        None \<Rightarrow> Inl KeyError
      | Some S \<Rightarrow>
          (case value_sizes order_values vs of
             Inl e \<Rightarrow> Inl e
           | Inr ns \<Rightarrow> Inr (card S # ns)))"

definition get_empty_var ::
  "memory \<Rightarrow> addr \<Rightarrow> candidates \<Rightarrow> cell list \<Rightarrow> error + cell option" where
  "get_empty_var m sol_array order_values variables =
     (case empty_variables m sol_array variables of
        Inl e \<Rightarrow> Inl e
      | Inr evs \<Rightarrow>
          (case value_sizes order_values evs of
             Inl e \<Rightarrow> Inl e
           | Inr sizes \<Rightarrow>
               (case np_argmin sizes of
                  Inl e \<Rightarrow> Inl e
                | Inr i \<Rightarrow> Inr (Some (evs ! i)))))"

section \<open>Constraint checking\<close>

text \<open>\<open>is_valid\<close> (lines 153-165).\<close>

fun is_valid_loop :: "memory \<Rightarrow> addr \<Rightarrow> pyval \<Rightarrow> cell list \<Rightarrow> error + bool" where
  "is_valid_loop m sol_array v [] = Inr True"
| "is_valid_loop m sol_array v (member_var # rest) =
     (case get_item m sol_array member_var of
        Inl e \<Rightarrow> Inl e
      | Inr x \<Rightarrow> if x = v then Inr False else is_valid_loop m sol_array v rest)"

definition is_valid :: "cell \<Rightarrow> pyval \<Rightarrow> peers \<Rightarrow> memory \<Rightarrow> addr \<Rightarrow> error + bool" where
  "is_valid var v members m sol_array =
     (case members var of
        None \<Rightarrow> Inl KeyError
      | Some ms \<Rightarrow> is_valid_loop m sol_array v ms)"

text \<open>
  \<open>forward_check\<close> (lines 168-192). \<open>restore_changes\<close> is the inner loop of lines
  189-190, \<open>forward_check_loop\<close> the loop of lines 181-191 with the list \<open>changes\<close>.
\<close>

fun restore_changes :: "pyval \<Rightarrow> cell list \<Rightarrow> candidates \<Rightarrow> error + candidates" where
  "restore_changes v [] order_values = Inr order_values"
| "restore_changes v (changed_var # rest) order_values =
     (case order_values changed_var of
        None \<Rightarrow> Inl KeyError
      | Some S \<Rightarrow> restore_changes v rest (order_values(changed_var \<mapsto> insert v S)))"

fun forward_check_loop ::
  "pyval \<Rightarrow> cell list \<Rightarrow> cell list \<Rightarrow> candidates \<Rightarrow> error + (bool \<times> candidates)" where
  "forward_check_loop v [] changes order_values = Inr (True, order_values)"
| "forward_check_loop v (member_var # rest) changes order_values =
     (case order_values member_var of
        None \<Rightarrow> Inl KeyError
      | Some S \<Rightarrow>
          if v \<in> S then
            (let order_values1 = order_values(member_var \<mapsto> S - {v});
                 changes1 = changes @ [member_var]
             in if card (S - {v}) = 0
                then (case restore_changes v changes1 order_values1 of
                        Inl e \<Rightarrow> Inl e
                      | Inr order_values2 \<Rightarrow> Inr (False, order_values2))
                else forward_check_loop v rest changes1 order_values1)
          else forward_check_loop v rest changes order_values)"

definition forward_check ::
  "cell \<Rightarrow> pyval \<Rightarrow> peers \<Rightarrow> candidates \<Rightarrow> error + (bool \<times> candidates)" where
  "forward_check var v members order_values =
     (case members var of
        None \<Rightarrow> Inl KeyError
      | Some ms \<Rightarrow> forward_check_loop v ms [] order_values)"

section \<open>Search engine\<close>

text \<open>
  The loop of \<open>depth_first_search\<close> over the candidate values (lines 107-129), with the
  recursive call as the parameter \<open>rec\<close>. The result is the returned reference (an
  address, or \<open>None\<close>) with the store and the candidate sets as the call leaves them.
  The backup dictionary \<open>old_order_values\<close> holds a copy of every set, so it is the
  mapping itself; \<open>order_values.update(old_order_values)\<close> is \<open>++\<close>.
\<close>

fun try_values ::
  "(memory \<Rightarrow> candidates \<Rightarrow> error + (addr option \<times> memory \<times> candidates)) \<Rightarrow>
   peers \<Rightarrow> addr \<Rightarrow> cell \<Rightarrow> pyval list \<Rightarrow> memory \<Rightarrow> candidates \<Rightarrow>
   error + (addr option \<times> memory \<times> candidates)" where
  "try_values rec members sol_array empty_var [] m order_values = Inr (None, m, order_values)"
| "try_values rec members sol_array empty_var (v # rest) m order_values =
     (case is_valid empty_var v members m sol_array of
        Inl e \<Rightarrow> Inl e
      | Inr False \<Rightarrow> try_values rec members sol_array empty_var rest m order_values
      | Inr True \<Rightarrow>
          (case set_item m sol_array empty_var v of
             Inl e \<Rightarrow> Inl e
           | Inr m1 \<Rightarrow>
               (let old_order_values = order_values in
                case forward_check empty_var v members order_values of
                  Inl e \<Rightarrow> Inl e
                | Inr (False, order_values1) \<Rightarrow>
                    (case set_item m1 sol_array empty_var None of
                       Inl e \<Rightarrow> Inl e
                     | Inr m3 \<Rightarrow>
                         try_values rec members sol_array empty_var rest m3
                           (order_values1 ++ old_order_values))
                | Inr (True, order_values1) \<Rightarrow>
                    (case rec m1 order_values1 of
                       Inl e \<Rightarrow> Inl e
                     | Inr (Some solution, m2, order_values2) \<Rightarrow>
                         Inr (Some solution, m2, order_values2)
                     | Inr (None, m2, order_values2) \<Rightarrow>
                         (case set_item m2 sol_array empty_var None of
                            Inl e \<Rightarrow> Inl e
                          | Inr m3 \<Rightarrow>
                              try_values rec members sol_array empty_var rest m3
                                (order_values2 ++ old_order_values))))))"

text \<open>
  \<open>depth_first_search\<close> (lines 87-129). The first argument bounds the depth of the
  recursion. \<open>en\<close> is the order in which the set type yields its elements when it is
  iterated: Python does not fix it, so it is a parameter of the model.
\<close>

fun depth_first_search ::
  "nat \<Rightarrow> (pyval set \<Rightarrow> pyval list) \<Rightarrow> memory \<Rightarrow> addr \<Rightarrow> candidates \<Rightarrow> peers \<Rightarrow> cell list \<Rightarrow>
   error + (addr option \<times> memory \<times> candidates)" where
  "depth_first_search 0 en m sol_array order_values members variables = Inl OutOfFuel"
| "depth_first_search (Suc fuel) en m sol_array order_values members variables =
     (if \<not> None_in m sol_array then Inr (Some sol_array, m, order_values)
      else
        (case get_empty_var m sol_array order_values variables of
           Inl e \<Rightarrow> Inl e
         | Inr None \<Rightarrow> Inr (None, m, order_values)
         | Inr (Some empty_var) \<Rightarrow>
             (case order_values empty_var of
                None \<Rightarrow> Inl KeyError
              | Some S \<Rightarrow>
                  try_values
                    (\<lambda>m' order_values'.
                       depth_first_search fuel en m' sol_array order_values' members variables)
                    members sol_array empty_var (en S) m order_values)))"

text \<open>
  \<open>sudoku_solver\<close> (lines 3-35). The argument is the address of the caller's array; the
  result is the address of the returned array and the store after the call.
\<close>

definition sudoku_solver ::
  "nat \<Rightarrow> (pyval set \<Rightarrow> pyval list) \<Rightarrow> memory \<Rightarrow> addr \<Rightarrow> error + (addr \<times> memory)" where
  "sudoku_solver fuel en m sudoku =
     (let order_values = Map.empty; members = Map.empty;
          (m1, sol_array) = alloc m (np_full 9 9 None);
          n = array_len m1 sudoku;
          variables = [(i, j). i \<leftarrow> [0..<n], j \<leftarrow> [0..<n]]
      in case populate_order_values m1 sudoku variables order_values of
           Inl e \<Rightarrow> Inl e
         | Inr order_values1 \<Rightarrow>
             (case populate_members m1 sudoku variables members of
                Inl e \<Rightarrow> Inl e
              | Inr members1 \<Rightarrow>
                  (case depth_first_search fuel en m1 sol_array order_values1 members1 variables of
                     Inl e \<Rightarrow> Inl e
                   | Inr (None, m2, order_values2) \<Rightarrow>
                       (let (m3, failure) = alloc m2 (np_full 9 9 (Some (- 1)))
                        in Inr (failure, m3))
                   | Inr (Some solution, m2, order_values2) \<Rightarrow> Inr (solution, m2))))"

section \<open>Vocabulary of the properties\<close>

text \<open>The 81 cells of the board in row-major order, as line 21 builds them for a 9x9 input.\<close>

definition variables9 :: "cell list" where
  "variables9 = [(i, j). i \<leftarrow> [0..<9], j \<leftarrow> [0..<9]]"

text \<open>Two distinct cells are peers when they share a row, a column or a 3x3 box.\<close>

definition peer :: "cell \<Rightarrow> cell \<Rightarrow> bool" where
  "peer v w =
     (v \<noteq> w \<and> (fst v = fst w \<or> snd v = snd w \<or>
        (fst v div 3 = fst w div 3 \<and> snd v div 3 = snd w div 3)))"

definition shape9 :: "ndarray \<Rightarrow> bool" where
  "shape9 arr = (length arr = 9 \<and> (\<forall>row \<in> set arr. length row = 9))"

definition at :: "ndarray \<Rightarrow> cell \<Rightarrow> pyval" where
  "at arr var = arr ! fst var ! snd var"

definition upd :: "ndarray \<Rightarrow> cell \<Rightarrow> pyval \<Rightarrow> ndarray" where
  "upd arr var x = arr[fst var := (arr ! fst var)[snd var := x]]"

text \<open>No two peers hold the same assigned value.\<close>

definition consistent :: "ndarray \<Rightarrow> bool" where
  "consistent arr =
     (\<forall>v \<in> set variables9. \<forall>w \<in> set variables9.
        peer v w \<and> at arr v \<noteq> None \<and> at arr w \<noteq> None \<longrightarrow> at arr v \<noteq> at arr w)"

text \<open>The rows, the columns and the boxes of the board, each as the list of its nine cells.\<close>

definition units9 :: "cell list list" where
  "units9 =
     [[(r, c). c \<leftarrow> [0..<9]]. r \<leftarrow> [0..<9]] @
     [[(r, c). r \<leftarrow> [0..<9]]. c \<leftarrow> [0..<9]] @
     [[(3 * br + i, 3 * bc + j). i \<leftarrow> [0..<3], j \<leftarrow> [0..<3]]. br \<leftarrow> [0..<3], bc \<leftarrow> [0..<3]]"

text \<open>
  A solved grid: 9x9, every entry one of 1..9, and every row, column and box holds each
  of 1..9 exactly once.
\<close>

definition solved_grid :: "ndarray \<Rightarrow> bool" where
  "solved_grid arr =
     (shape9 arr \<and>
      (\<forall>v \<in> set variables9. at arr v \<in> Some ` {1..9}) \<and>
      (\<forall>u \<in> set units9. \<forall>d \<in> {1..9}. count_list (map (at arr) u) (Some d) = 1))"

text \<open>A well-formed input: 9x9 with every entry an integer from 0 to 9.\<close>

definition wf_sudoku :: "ndarray \<Rightarrow> bool" where
  "wf_sudoku arr = (shape9 arr \<and> (\<forall>v \<in> set variables9. at arr v \<in> Some ` {0..9}))"

text \<open>A completion of a puzzle: a solved grid that keeps the puzzle's non-zero entries.\<close>

definition completion :: "ndarray \<Rightarrow> ndarray \<Rightarrow> bool" where
  "completion puzzle arr =
     (solved_grid arr \<and>
      (\<forall>v \<in> set variables9. at puzzle v \<noteq> Some 0 \<longrightarrow> at arr v = at puzzle v))"

text \<open>The failure sentinel: the 9x9 array whose every entry is -1.\<close>

definition all_minus_one :: ndarray where
  "all_minus_one = np_full 9 9 (Some (- 1))"

text \<open>Iterating a finite set yields each of its elements once, in some order.\<close>

definition enumerates :: "(pyval set \<Rightarrow> pyval list) \<Rightarrow> bool" where
  "enumerates en = (\<forall>S. finite S \<longrightarrow> set (en S) = S \<and> distinct (en S))"

text \<open>Two enumerations: ascending (with \<open>None\<close> first) and its reverse.\<close>

definition ascending :: "pyval set \<Rightarrow> pyval list" where
  "ascending S =
     (if None \<in> S then [None] else []) @ map Some (sorted_list_of_set (Option.these S))"

definition descending :: "pyval set \<Rightarrow> pyval list" where
  "descending S = rev (ascending S)"

text \<open>
  The array states a list of writes (newest first) leads through, starting from \<open>arr\<close>:
  \<open>replay\<close> is the last state, \<open>states\<close> all of them.
\<close>

definition replay :: "(addr \<times> cell \<times> pyval) list \<Rightarrow> ndarray \<Rightarrow> ndarray" where
  "replay evs arr = foldr (\<lambda>e s. upd s (fst (snd e)) (snd (snd e))) evs arr"

fun states :: "(addr \<times> cell \<times> pyval) list \<Rightarrow> ndarray \<Rightarrow> ndarray list" where
  "states [] arr = [arr]"
| "states (e # evs) arr = replay (e # evs) arr # states evs arr"

text \<open>The number of unassigned cells.\<close>

definition num_None :: "ndarray \<Rightarrow> nat" where
  "num_None arr = length (filter (\<lambda>v. at arr v = None) variables9)"

text \<open>
  The candidate sets the search runs on: one finite set per cell, without \<open>None\<close>.
  The peer lists it runs on: for every cell a list whose elements are its peers.
\<close>

definition cands_ok :: "candidates \<Rightarrow> bool" where
  "cands_ok order_values =
     (\<forall>v \<in> set variables9. \<exists>S. order_values v = Some S \<and> finite S \<and> None \<notin> S)"

definition members_ok :: "peers \<Rightarrow> bool" where
  "members_ok members =
     (\<forall>v \<in> set variables9. \<exists>ms. members v = Some ms \<and>
        set ms = {w \<in> set variables9. peer v w})"

text \<open>
  The contract of one call of \<open>depth_first_search\<close> on the array at address \<open>a\<close>.
  Before: the array is 9x9 and consistent, and the candidate sets are as above. The
  writes of the call, \<open>log_ok\<close>: each goes to address \<open>a\<close>, to a cell of the board that was
  unassigned when the call began, and every array state they lead through is 9x9 and
  consistent. After: no other array has changed; when the call returns \<open>None\<close> the
  arrays and the candidate sets are what they were; when it returns the array, the
  array is full, every cell assigned before has kept its value, and every other cell
  holds a value of its candidate set.
\<close>

definition dfs_pre :: "addr \<Rightarrow> memory \<Rightarrow> candidates \<Rightarrow> bool" where
  "dfs_pre a m order_values =
     (a < length (arrays m) \<and> shape9 (arrays m ! a) \<and> consistent (arrays m ! a) \<and>
      cands_ok order_values)"

definition log_ok :: "addr \<Rightarrow> ndarray \<Rightarrow> (addr \<times> cell \<times> pyval) list \<Rightarrow> bool" where
  "log_ok a arr evs =
     ((\<forall>e \<in> set evs. fst e = a \<and> fst (snd e) \<in> set variables9 \<and> at arr (fst (snd e)) = None) \<and>
      (\<forall>s \<in> set (states evs arr). shape9 s \<and> consistent s))"

definition dfs_post ::
  "addr \<Rightarrow> memory \<Rightarrow> candidates \<Rightarrow> addr option \<times> memory \<times> candidates \<Rightarrow> bool" where
  "dfs_post a m order_values res =
     (case res of (r, m', order_values') \<Rightarrow>
        length (arrays m') = length (arrays m) \<and>
        (\<forall>b. b \<noteq> a \<longrightarrow> arrays m' ! b = arrays m ! b) \<and>
        (\<exists>evs. writes m' = evs @ writes m \<and> log_ok a (arrays m ! a) evs \<and>
               arrays m' ! a = replay evs (arrays m ! a)) \<and>
        (case r of
           None \<Rightarrow> arrays m' = arrays m \<and> order_values' = order_values
         | Some s \<Rightarrow>
             s = a \<and> \<not> None_in m' a \<and>
             (\<forall>w \<in> set variables9.
                (at (arrays m ! a) w \<noteq> None \<longrightarrow> at (arrays m' ! a) w = at (arrays m ! a) w) \<and>
                (at (arrays m ! a) w = None \<longrightarrow>
                   (\<exists>T. order_values w = Some T \<and> at (arrays m' ! a) w \<in> T)))))"

text \<open>
  The values a list of writes (newest first) assigns to the cell \<open>var\<close>, in the order
  in which they were assigned.
\<close>

definition tried :: "cell \<Rightarrow> (addr \<times> cell \<times> pyval) list \<Rightarrow> pyval list" where
  "tried var evs =
     map (\<lambda>e. snd (snd e)) (filter (\<lambda>e. fst (snd e) = var \<and> snd (snd e) \<noteq> None) (rev evs))"

text \<open>The position of a cell in the row-major enumeration.\<close>

definition rank :: "cell \<Rightarrow> nat" where
  "rank v = 9 * fst v + snd v"

section \<open>Concrete inputs\<close>

text \<open>A store holding one array, the blank 9x9 puzzle, at address 0.\<close>

definition blank9 :: memory where
  "blank9 = \<lparr>arrays = [np_full 9 9 (Some 0)], writes = []\<rparr>"

text \<open>A store holding one array of integers, given by its rows, at address 0.\<close>

definition store_of :: "int list list \<Rightarrow> memory" where
  "store_of rows = \<lparr>arrays = [map (map Some) rows], writes = []\<rparr>"

text \<open>A solved grid, and the puzzle it solves: four of its cells are blank.\<close>

definition solution9 :: "int list list" where
  "solution9 =
     [[5, 3, 4, 6, 7, 8, 9, 1, 2],
      [6, 7, 2, 1, 9, 5, 3, 4, 8],
      [1, 9, 8, 3, 4, 2, 5, 6, 7],
      [8, 5, 9, 7, 6, 1, 4, 2, 3],
      [4, 2, 6, 8, 5, 3, 7, 9, 1],
      [7, 1, 3, 9, 2, 4, 8, 5, 6],
      [9, 6, 1, 5, 3, 7, 2, 8, 4],
      [2, 8, 7, 4, 1, 9, 6, 3, 5],
      [3, 4, 5, 2, 8, 6, 1, 7, 9]]"

definition puzzle9 :: "int list list" where
  "puzzle9 =
     [[0, 0, 4, 6, 7, 8, 9, 1, 2],
      [6, 7, 2, 1, 9, 5, 3, 4, 8],
      [1, 9, 8, 3, 4, 2, 5, 6, 7],
      [8, 5, 9, 7, 6, 1, 4, 2, 3],
      [4, 2, 6, 8, 0, 3, 7, 9, 1],
      [7, 1, 3, 9, 2, 4, 8, 5, 6],
      [9, 6, 1, 5, 3, 7, 2, 8, 4],
      [2, 8, 7, 4, 1, 9, 6, 3, 5],
      [3, 4, 5, 2, 8, 6, 1, 7, 0]]"

text \<open>A grid with the value 5 twice in row 0, every other cell blank.\<close>

definition clash9 :: "int list list" where
  "clash9 = [5, 5, 0, 0, 0, 0, 0, 0, 0] # replicate 8 (replicate 9 0)"

text \<open>
  A grid without completion in which the search branches: the cells \<open>(0, 0)\<close>, \<open>(0, 1)\<close>
  and \<open>(0, 2)\<close> can only hold 1 or 2.
\<close>

definition pigeon9 :: "int list list" where
  "pigeon9 =
     [0, 0, 0, 4, 5, 6, 7, 8, 9] # [3, 0, 0, 0, 0, 0, 0, 0, 0] # replicate 7 (replicate 9 0)"

text \<open>The peer lists of the 9x9 board, as \<open>populate_members\<close> builds them.\<close>

definition peers9 :: peers where
  "peers9 = (\<lambda>v. if v \<in> set variables9 then Some (member_list 9 v) else None)"

text \<open>
  A store whose only array is the empty 9x9 solution array, as \<open>sudoku_solver\<close> creates
  it, with two families of candidate sets: every cell may hold 1..9; or the cells
  \<open>(2, 3)\<close> and \<open>(4, 1)\<close> may hold only 1 or 2.
\<close>

definition empty_board :: memory where
  "empty_board = \<lparr>arrays = [np_full 9 9 None], writes = []\<rparr>"

definition all_candidates :: candidates where
  "all_candidates = (\<lambda>v. if v \<in> set variables9 then Some (Some ` {1..9}) else None)"

definition two_candidates :: candidates where
  "two_candidates =
     (\<lambda>v. if v \<in> set variables9
          then Some (if v = (2, 3) \<or> v = (4, 1) then {Some 1, Some 2} else Some ` {1..9})
          else None)"

text \<open>A cell with two peers, and candidate sets for the two peers.\<close>

definition small_members :: peers where
  "small_members = [(0, 0) \<mapsto> [(0, 1), (0, 2)]]"

definition small_candidates :: candidates where
  "small_candidates = [(0, 1) \<mapsto> {Some 1, Some 3}, (0, 2) \<mapsto> {Some 3}]"

section \<open>Basic facts\<close>

lemma in_variables9: "(r, c) \<in> set variables9 \<longleftrightarrow> r < 9 \<and> c < 9"
  by (force simp: variables9_def)

lemma shape9_np_full: "shape9 (np_full 9 9 x)"
  by (simp add: shape9_def np_full_def)

lemma row_len_shape9: "shape9 (arrays m ! a) \<Longrightarrow> row_len m a 0 = Inr 9"
  by (simp add: row_len_def shape9_def)

section \<open>The peer lists\<close>

lemma member_list_props:
  "\<forall>r \<in> set [0..<9]. \<forall>c \<in> set [0..<9].
     set (member_list 9 (r, c)) = Set.filter (peer (r, c)) (set variables9) \<and>
     card (set (member_list 9 (r, c))) = 20 \<and>
     length (member_list 9 (r, c)) = 24 \<and>
     (r, c) \<notin> set (member_list 9 (r, c)) \<and>
     (\<forall>w \<in> set (member_list 9 (r, c)).
        count_list (member_list 9 (r, c)) w =
          (if fst w div 3 = r div 3 \<and> snd w div 3 = c div 3 \<and> (fst w = r \<or> snd w = c)
           then 2 else 1))"
  by code_simp

lemma populate_members_result:
  "row_len m a 0 = Inr n \<Longrightarrow>
   populate_members m a vars mem =
     Inr (\<lambda>v. if v \<in> set vars then Some (member_list n v) else mem v)"
  by (induction vars arbitrary: mem) (auto simp: fun_eq_iff)

lemma blank9_members:
  "populate_members blank9 0 variables9 Map.empty =
     Inr (\<lambda>v. if v \<in> set variables9 then Some (member_list 9 v) else None)"
  by (rule populate_members_result) (simp add: row_len_def blank9_def np_full_def)

text \<open>
  C8, as amended. For a 9x9 input and every cell \<open>(r, c)\<close> of the board, the mapping built
  by \<open>populate_members\<close> associates to the cell a list whose elements are exactly the 20
  other cells sharing its row, column or box, never the cell itself. The list has 24
  entries: a peer in the cell's box that also shares its row or its column is recorded
  twice, every other peer once.
\<close>

theorem C8_populate_members:
  assumes "shape9 (arrays m ! sudoku)"
    and "populate_members m sudoku variables9 Map.empty = Inr members"
    and "r < 9" and "c < 9"
  shows "\<exists>ms. members (r, c) = Some ms \<and>
           set ms = {w \<in> set variables9. peer (r, c) w} \<and>
           card (set ms) = 20 \<and> (r, c) \<notin> set ms \<and> length ms = 24 \<and>
           (\<forall>w \<in> set ms. count_list ms w =
              (if fst w div 3 = r div 3 \<and> snd w div 3 = c div 3 \<and> (fst w = r \<or> snd w = c)
               then 2 else 1))"
proof -
  have "members = (\<lambda>v. if v \<in> set variables9 then Some (member_list 9 v) else None)"
    using assms(1,2) populate_members_result [OF row_len_shape9, of m sudoku variables9 Map.empty]
    by simp
  then have m: "members (r, c) = Some (member_list 9 (r, c))"
    using assms(3,4) by (simp add: in_variables9)
  have "r \<in> set [0..<9]" "c \<in> set [0..<9]" using assms(3,4) by simp_all
  with member_list_props have
    p: "set (member_list 9 (r, c)) = Set.filter (peer (r, c)) (set variables9) \<and>
     card (set (member_list 9 (r, c))) = 20 \<and>
     length (member_list 9 (r, c)) = 24 \<and>
     (r, c) \<notin> set (member_list 9 (r, c)) \<and>
     (\<forall>w \<in> set (member_list 9 (r, c)).
        count_list (member_list 9 (r, c)) w =
          (if fst w div 3 = r div 3 \<and> snd w div 3 = c div 3 \<and> (fst w = r \<or> snd w = c)
           then 2 else 1))"
    by blast
  have f: "Set.filter (peer (r, c)) (set variables9) = {w \<in> set variables9. peer (r, c) w}"
    by auto
  from p have p1: "set (member_list 9 (r, c)) = {w \<in> set variables9. peer (r, c) w}"
    unfolding f by blast
  from p have p2: "card (set (member_list 9 (r, c))) = 20" by blast
  from p have p3: "length (member_list 9 (r, c)) = 24" by blast
  from p have p4: "(r, c) \<notin> set (member_list 9 (r, c))" by blast
  from p have p5: "\<forall>w \<in> set (member_list 9 (r, c)).
        count_list (member_list 9 (r, c)) w =
          (if fst w div 3 = r div 3 \<and> snd w div 3 = c div 3 \<and> (fst w = r \<or> snd w = c)
           then 2 else 1)"
    by blast
  show ?thesis
    by (rule exI [of _ "member_list 9 (r, c)"]) (intro conjI m p1 p2 p3 p4 p5)
qed

theorem C8_populate_members_witness:
  "\<exists>ms. (\<lambda>v. if v \<in> set variables9 then Some (member_list 9 v) else None) (4, 4) = Some ms \<and>
           set ms = {w \<in> set variables9. peer (4, 4) w} \<and>
           card (set ms) = 20 \<and> (4, 4) \<notin> set ms \<and> length ms = 24 \<and>
           (\<forall>w \<in> set ms. count_list ms w =
              (if fst w div 3 = 4 div 3 \<and> snd w div 3 = 4 div 3 \<and> (fst w = 4 \<or> snd w = 4)
               then 2 else 1))"
  by (rule C8_populate_members [of blank9 0, OF _ blank9_members])
     (simp_all add: blank9_def shape9_np_full)

text \<open>
  C8 as stated fails: in the list of cell \<open>(0, 0)\<close> of the blank puzzle the peer
  \<open>(0, 1)\<close> occurs twice, so a peer is recorded more than once.
\<close>

theorem C8_duplicates_counterexample:
  "(case populate_members blank9 0 variables9 Map.empty of
      Inl e \<Rightarrow> None
    | Inr members \<Rightarrow> map_option (\<lambda>ms. (distinct ms, count_list ms (0, 1))) (members (0, 0)))
   = Some (False, 2)"
  by code_simp

end
